theory Spec2Isabelle
  imports Complex_Main
begin

section \<open>Comfort scoring, alerts and evolution of the room-comfort backend\<close>

text \<open>
  The development embeds \<^verbatim>\<open>core/utils.py\<close> and \<^verbatim>\<open>core/services.py\<close>.
  A Python float is modelled by the \<^typ>\<open>real\<close> number it denotes.  The weighted sum
  of the global score, which decides the status at its thresholds, rounds every product
  and every sum to the nearest double; the comparisons are exact; the penalty of one
  parameter and the aggregates of the query language are computed without rounding.
  Timestamps are integers counting microseconds since the epoch (UTC).
\<close>

subsection \<open>Double-precision arithmetic\<close>

text \<open>
  Rounding to the nearest integer, ties to the even one; the exponent of the unit in the
  last place of the doubles around a magnitude, searched upwards from the subnormal
  exponent -1074 to the largest one, 971; and rounding of a real number to the nearest
  double.  Overflow to infinity is not modelled: beyond the largest double the numbers
  are rounded at the granularity of the last binade.
\<close>

definition round_even :: "real \<Rightarrow> int" where
  "round_even q =
     (let f = \<lfloor>q\<rfloor>; r = q - of_int f in
      if r < 1/2 then f else if r > 1/2 then f + 1 else if even f then f else f + 1)"

fun ulp_exp :: "nat \<Rightarrow> int \<Rightarrow> real \<Rightarrow> int" where
  "ulp_exp 0 k a = k"
| "ulp_exp (Suc n) k a = (if a < 2 powi (k + 53) then k else ulp_exp n (k + 1) a)"

definition ulp :: "real \<Rightarrow> real" where
  "ulp a = 2 powi (ulp_exp 2045 (- 1074) a)"

definition round_double :: "real \<Rightarrow> real" where
  "round_double x = of_int (round_even (x / ulp \<bar>x\<bar>)) * ulp \<bar>x\<bar>"

text \<open>Python's \<^verbatim>\<open>*\<close> and \<^verbatim>\<open>+\<close> on floats.\<close>

definition float_mul :: "real \<Rightarrow> real \<Rightarrow> real" where
  "float_mul x y = round_double (x * y)"

definition float_add :: "real \<Rightarrow> real \<Rightarrow> real" where
  "float_add x y = round_double (x + y)"

subsection \<open>Configuration tables (utils.py, lines 5-21)\<close>

datatype param = Temperature | Humidite | Air | Bruit | Luminosite

text \<open>An entry of \<^verbatim>\<open>THRESHOLDS\<close>: a dictionary that may hold the keys min and max.\<close>

record thresh =
  t_min :: "int option"
  t_max :: "int option"

fun THRESHOLDS :: "param \<Rightarrow> thresh" where
  "THRESHOLDS Temperature = \<lparr>t_min = Some 22, t_max = Some 26\<rparr>"
| "THRESHOLDS Humidite = \<lparr>t_min = Some 40, t_max = Some 60\<rparr>"
| "THRESHOLDS Bruit = \<lparr>t_min = None, t_max = Some 60\<rparr>"
| "THRESHOLDS Luminosite = \<lparr>t_min = Some 300, t_max = Some 500\<rparr>"
| "THRESHOLDS Air = \<lparr>t_min = None, t_max = Some 1000\<rparr>"

text \<open>A decimal literal of \<^verbatim>\<open>WEIGHTS\<close> denotes the double nearest to it.\<close>

fun WEIGHTS :: "param \<Rightarrow> real" where
  "WEIGHTS Temperature = round_double 0.25"
| "WEIGHTS Humidite = round_double 0.20"
| "WEIGHTS Air = round_double 0.25"
| "WEIGHTS Bruit = round_double 0.20"
| "WEIGHTS Luminosite = round_double 0.10"

subsection \<open>Scores (utils.py, lines 23-78)\<close>

definition calculate_parameter_score :: "real \<Rightarrow> param \<Rightarrow> real" where
  "calculate_parameter_score v p =
     (let th = THRESHOLDS p in
      case (t_min th, t_max th) of
        (Some lo, Some hi) \<Rightarrow>
          if real_of_int lo \<le> v \<and> v \<le> real_of_int hi then 100
          else
            (let deviation = (if v < real_of_int lo then real_of_int lo - v
                              else v - real_of_int hi)
             in max 0 (100 - deviation * 10))
      | (None, Some hi) \<Rightarrow>
          if v \<le> real_of_int hi then 100
          else (let deviation = v - real_of_int hi in max 0 (100 - deviation * 10))
      | (Some lo, None) \<Rightarrow>
          if v \<ge> real_of_int lo then 100
          else (let deviation = real_of_int lo - v in max 0 (100 - deviation * 10))
      | (None, None) \<Rightarrow> 0)"

text \<open>The dictionary of the five parameter scores.\<close>

record scores =
  s_temperature :: real
  s_humidite :: real
  s_air :: real
  s_bruit :: real
  s_luminosite :: real

text \<open>The sum is evaluated from left to right, as Python does.\<close>

definition calculate_global_score :: "scores \<Rightarrow> real" where
  "calculate_global_score s =
     float_add
       (float_add
          (float_add
             (float_add (float_mul (s_temperature s) (WEIGHTS Temperature))
                        (float_mul (s_humidite s) (WEIGHTS Humidite)))
             (float_mul (s_air s) (WEIGHTS Air)))
          (float_mul (s_bruit s) (WEIGHTS Bruit)))
       (float_mul (s_luminosite s) (WEIGHTS Luminosite))"

datatype statut = Comfort | Warning | Danger

definition determine_status :: "real \<Rightarrow> statut" where
  "determine_status global_score =
     (if global_score \<ge> 70 then Comfort
      else if global_score \<ge> 40 then Warning
      else Danger)"

subsection \<open>Alert generation (utils.py, lines 80-130)\<close>

text \<open>A stored measurement (model \<^verbatim>\<open>Mesure\<close>).\<close>

record mesure =
  m_id :: int
  m_salle :: int
  m_temperature :: real
  m_humidite :: real
  m_air :: real
  m_bruit :: real
  m_luminosite :: real
  m_timestamp :: int

datatype niveau = NWarning | NDanger

text \<open>
  The dictionary appended to \<^verbatim>\<open>alerts\<close>.  The threshold is the integer of the table.
\<close>

record alert_data =
  ad_type :: param
  ad_valeur :: real
  ad_seuil :: int
  ad_niveau :: niveau
  ad_message :: string

text \<open>
  Python's conversion of a float and of an integer to text inside the f-string is not
  part of the repository; both are parameters.
\<close>

record py_str =
  str_float :: "real \<Rightarrow> string"
  str_int :: "int \<Rightarrow> string"

fun param_key :: "param \<Rightarrow> string" where
  "param_key Temperature = ''temperature''"
| "param_key Humidite = ''humidite''"
| "param_key Air = ''air''"
| "param_key Bruit = ''bruit''"
| "param_key Luminosite = ''luminosite''"

text \<open>
  One iteration of the loop up to the test of \<^verbatim>\<open>is_out\<close>: \<open>None\<close> when
  \<^verbatim>\<open>is_out\<close> stays false, otherwise the pair (seuil, niveau).
\<close>

definition out_of_threshold :: "param \<Rightarrow> real \<Rightarrow> (int \<times> niveau) option" where
  "out_of_threshold p v =
     (let th = THRESHOLDS p in
      case (t_min th, t_max th) of
        (Some lo, Some hi) \<Rightarrow>
          if v < real_of_int lo then
            Some (lo, if v \<ge> real_of_int (lo - 5) then NWarning else NDanger)
          else if v > real_of_int hi then
            Some (hi, if v \<le> real_of_int (hi + 5) then NWarning else NDanger)
          else None
      | (None, Some hi) \<Rightarrow>
          if v > real_of_int hi then
            Some (hi, if v \<le> real_of_int (hi + 10) then NWarning else NDanger)
          else None
      | (Some lo, None) \<Rightarrow>
          if v < real_of_int lo then
            Some (lo, if v \<ge> real_of_int (lo - 10) then NWarning else NDanger)
          else None
      | (None, None) \<Rightarrow> None)"

fun generate_alerts_loop ::
  "py_str \<Rightarrow> (param \<times> real) list \<Rightarrow> alert_data list \<Rightarrow> alert_data list" where
  "generate_alerts_loop F [] alerts = alerts"
| "generate_alerts_loop F ((p, v) # rest) alerts =
     generate_alerts_loop F rest
       (case out_of_threshold p v of
          None \<Rightarrow> alerts
        | Some (seuil, niv) \<Rightarrow>
            alerts @
            [\<lparr>ad_type = p, ad_valeur = v, ad_seuil = seuil, ad_niveau = niv,
              ad_message = ''Valeur '' @ param_key p @ '' ('' @ str_float F v @
                           '') hors seuil ('' @ str_int F seuil @ '')''\<rparr>])"

text \<open>The dictionary \<^verbatim>\<open>params\<close>, in its insertion order.\<close>

definition params_items :: "mesure \<Rightarrow> (param \<times> real) list" where
  "params_items m =
     [(Temperature, m_temperature m), (Humidite, m_humidite m), (Air, m_air m),
      (Bruit, m_bruit m), (Luminosite, m_luminosite m)]"

definition generate_alerts :: "py_str \<Rightarrow> mesure \<Rightarrow> scores \<Rightarrow> alert_data list" where
  "generate_alerts F m sc = generate_alerts_loop F (params_items m) []"

subsection \<open>The data store (models.py)\<close>

record salle =
  sa_id :: int
  sa_nom :: string
  sa_description :: string

record indice_confort =
  i_id :: int
  i_mesure :: int
  i_score_global :: real
  i_statut :: statut
  i_score_temperature :: real
  i_score_humidite :: real
  i_score_air :: real
  i_score_bruit :: real
  i_score_luminosite :: real
  i_timestamp :: int

record alerte =
  al_id :: int
  al_mesure :: int
  al_type :: param
  al_valeur :: real
  al_seuil :: real
  al_niveau :: niveau
  al_message :: string
  al_timestamp :: int

text \<open>The four tables, each in insertion order.\<close>

record db =
  salles :: "salle list"
  mesures :: "mesure list"
  indices :: "indice_confort list"
  alertes :: "alerte list"

text \<open>The primary key the store gives a new row: one more than the largest key in use.\<close>

definition fresh_id :: "int list \<Rightarrow> int" where
  "fresh_id ids = fold max ids 0 + 1"

subsection \<open>Ingestion (services.py, lines 17-92)\<close>

datatype error =
  ValueError string
| Http404
| ValidationError
| DatabaseError

text \<open>
  The request dictionary.  The outer \<open>option\<close> of \<open>rq_salle_id\<close> is the presence of
  the key, the inner one distinguishes a null from an integer.  A numeric field is
  \<open>None\<close> when the key is absent or its value is not a number.  A timestamp is
  \<open>None\<close> when the key is absent.
\<close>

record request =
  rq_salle_id :: "int option option"
  rq_temperature :: "real option"
  rq_humidite :: "real option"
  rq_air :: "real option"
  rq_bruit :: "real option"
  rq_luminosite :: "real option"
  rq_timestamp :: "int option"

text \<open>
  What the code takes from outside: the clock (\<open>e_clock 0\<close> is the call of
  \<^verbatim>\<open>timezone.now()\<close> at line 37, \<open>e_clock (Suc k)\<close> the default timestamp of the
  alert number \<open>k\<close>), Python's text conversions, and whether a write to the store goes
  through or raises.
\<close>

datatype store_write = WMesure | WIndice | WAlerte nat

record env =
  e_clock :: "nat \<Rightarrow> int"
  e_str :: py_str
  e_write_ok :: "store_write \<Rightarrow> bool"

record response =
  r_mesure :: mesure
  r_indice_confort :: indice_confort
  r_alertes :: "alerte list"

text \<open>
  \<^verbatim>\<open>IndiceConfortSerializer.is_valid\<close>: the measurement must exist and, the relation
  being one-to-one, must not have an index yet.  The other fields are valid by their types.
\<close>

definition indice_is_valid :: "db \<Rightarrow> int \<Rightarrow> bool" where
  "indice_is_valid d mid =
     (mid \<in> set (map m_id (mesures d)) \<and> mid \<notin> set (map i_mesure (indices d)))"

text \<open>
  \<^verbatim>\<open>AlerteSerializer.is_valid\<close>: the measurement must exist and the message must not
  be blank.
\<close>

definition alerte_is_valid :: "db \<Rightarrow> int \<Rightarrow> alert_data \<Rightarrow> bool" where
  "alerte_is_valid d mid a = (mid \<in> set (map m_id (mesures d)) \<and> ad_message a \<noteq> [])"

text \<open>
  The loop over \<^verbatim>\<open>alerts_data\<close> (lines 80-85); \<open>k\<close> counts the iterations.  The
  state is returned also when a write raises, with what was written until then.
\<close>

fun create_alerts ::
  "env \<Rightarrow> int \<Rightarrow> nat \<Rightarrow> alert_data list \<Rightarrow> db \<Rightarrow> alerte list \<Rightarrow> db \<times> (error + alerte list)" where
  "create_alerts E mid k [] d created = (d, Inr created)"
| "create_alerts E mid k (a # rest) d created =
     (if alerte_is_valid d mid a then
        (if \<not> e_write_ok E (WAlerte k) then (d, Inl DatabaseError)
         else
           (let row = \<lparr>al_id = fresh_id (map al_id (alertes d)), al_mesure = mid,
                       al_type = ad_type a, al_valeur = ad_valeur a,
                       al_seuil = real_of_int (ad_seuil a), al_niveau = ad_niveau a,
                       al_message = ad_message a, al_timestamp = e_clock E (Suc k)\<rparr>
            in create_alerts E mid (Suc k) rest
                 (d\<lparr>alertes := alertes d @ [row]\<rparr>) (created @ [row])))
      else create_alerts E mid (Suc k) rest d created)"

text \<open>
  The body of the \<^verbatim>\<open>with transaction.atomic()\<close> block (lines 45-85), run on the
  validated fields.  It returns the store as the writes left it, also on an error.
\<close>

definition atomic_body ::
  "env \<Rightarrow> int \<Rightarrow> real \<Rightarrow> real \<Rightarrow> real \<Rightarrow> real \<Rightarrow> real \<Rightarrow> int \<Rightarrow> db \<Rightarrow> db \<times> (error + response)" where
  "atomic_body E sid t h a b l ts d =
     (if \<not> e_write_ok E WMesure then (d, Inl DatabaseError)
      else
        (let m = \<lparr>m_id = fresh_id (map m_id (mesures d)), m_salle = sid,
                  m_temperature = t, m_humidite = h, m_air = a, m_bruit = b,
                  m_luminosite = l, m_timestamp = ts\<rparr>;
             d1 = d\<lparr>mesures := mesures d @ [m]\<rparr>;
             sc = \<lparr>s_temperature = calculate_parameter_score (m_temperature m) Temperature,
                   s_humidite = calculate_parameter_score (m_humidite m) Humidite,
                   s_air = calculate_parameter_score (m_air m) Air,
                   s_bruit = calculate_parameter_score (m_bruit m) Bruit,
                   s_luminosite = calculate_parameter_score (m_luminosite m) Luminosite\<rparr>;
             global_score = calculate_global_score sc;
             st = determine_status global_score
         in
           if \<not> indice_is_valid d1 (m_id m) then (d1, Inl ValidationError)
           else if \<not> e_write_ok E WIndice then (d1, Inl DatabaseError)
           else
             (let i = \<lparr>i_id = fresh_id (map i_id (indices d1)), i_mesure = m_id m,
                       i_score_global = global_score, i_statut = st,
                       i_score_temperature = s_temperature sc,
                       i_score_humidite = s_humidite sc,
                       i_score_air = s_air sc,
                       i_score_bruit = s_bruit sc,
                       i_score_luminosite = s_luminosite sc,
                       i_timestamp = m_timestamp m\<rparr>;
                  d2 = d1\<lparr>indices := indices d1 @ [i]\<rparr>
              in case create_alerts E (m_id m) 0 (generate_alerts (e_str E) m sc) d2 [] of
                   (d3, Inl e) \<Rightarrow> (d3, Inl e)
                 | (d3, Inr created) \<Rightarrow>
                     (d3, Inr \<lparr>r_mesure = m, r_indice_confort = i, r_alertes = created\<rparr>))))"

text \<open>
  \<^verbatim>\<open>transaction.atomic()\<close>: when the block raises, the store is the one from before the
  block; otherwise the writes of the block are kept.
\<close>

definition transaction_atomic :: "(db \<Rightarrow> db \<times> (error + 'a)) \<Rightarrow> db \<Rightarrow> db \<times> (error + 'a)" where
  "transaction_atomic body d =
     (case body d of
        (d', Inl e) \<Rightarrow> (d, Inl e)
      | (d', Inr r) \<Rightarrow> (d', Inr r))"

definition collect_measurement :: "env \<Rightarrow> db \<Rightarrow> request \<Rightarrow> db \<times> (error + response)" where
  "collect_measurement E d data =
     (let salle_id = (case rq_salle_id data of None \<Rightarrow> Some 1 | Some v \<Rightarrow> v) in
      case salle_id of
        None \<Rightarrow> (d, Inl (ValueError ''salle_id is required''))
      | Some sid \<Rightarrow>
          if sid = 0 then (d, Inl (ValueError ''salle_id is required''))
          else
            (case find (\<lambda>s. sa_id s = sid) (salles d) of
               None \<Rightarrow> (d, Inl Http404)
             | Some sa \<Rightarrow>
                 (let ts = (case rq_timestamp data of None \<Rightarrow> e_clock E 0 | Some t \<Rightarrow> t) in
                  case (rq_temperature data, rq_humidite data, rq_air data,
                        rq_bruit data, rq_luminosite data) of
                    (Some t, Some h, Some a, Some b, Some l) \<Rightarrow>
                      transaction_atomic (atomic_body E (sa_id sa) t h a b l ts) d
                  | _ \<Rightarrow> (d, Inl ValidationError))))"

subsection \<open>Evolution (services.py, lines 147-246)\<close>

text \<open>
  The aggregates of the query language.  Over no row they give the null value.
\<close>

fun Min_agg :: "'a::linorder list \<Rightarrow> 'a option" where
  "Min_agg [] = None"
| "Min_agg (x # xs) = Some (fold min xs x)"

fun Max_agg :: "'a::linorder list \<Rightarrow> 'a option" where
  "Max_agg [] = None"
| "Max_agg (x # xs) = Some (fold max xs x)"

definition Avg_agg :: "real list \<Rightarrow> real option" where
  "Avg_agg xs = (if xs = [] then None else Some (sum_list xs / real (length xs)))"

definition hour_delta :: int where
  "hour_delta = 3600000000"

definition day_delta :: int where
  "day_delta = 86400000000"

definition TruncHour :: "int \<Rightarrow> int" where
  "TruncHour t = t - t mod hour_delta"

definition TruncDay :: "int \<Rightarrow> int" where
  "TruncDay t = t - t mod day_delta"

text \<open>The choice of lines 169-174: the truncation and the width of a period.\<close>

definition trunc_func_delta :: "string \<Rightarrow> (int \<Rightarrow> int) \<times> int" where
  "trunc_func_delta period =
     (if period = ''hour'' then (TruncHour, hour_delta) else (TruncDay, day_delta))"

text \<open>The filter \<^verbatim>\<open>mesure__salle_id=salle_id\<close>: the join with the measurements.\<close>

definition of_salle :: "db \<Rightarrow> int \<Rightarrow> indice_confort \<Rightarrow> bool" where
  "of_salle d sid i = (\<exists>m \<in> set (mesures d). m_id m = i_mesure i \<and> m_salle m = sid)"

text \<open>
  \<^verbatim>\<open>order_by('-timestamp')\<close>.  Rows of equal timestamp are left in the order of the
  table; the query does not fix their order.
\<close>

definition order_by_desc_timestamp :: "indice_confort list \<Rightarrow> indice_confort list" where
  "order_by_desc_timestamp rows = sort_key (\<lambda>i. - i_timestamp i) rows"

text \<open>
  One of the six correlated subqueries (lines 177-211) for the column \<open>col\<close>, at the
  outer row of period \<open>p\<close>: the first row of the ordered selection, null when there is none.
\<close>

definition current_sub ::
  "db \<Rightarrow> int \<Rightarrow> int \<Rightarrow> (indice_confort \<Rightarrow> real) \<Rightarrow> int \<Rightarrow> real option" where
  "current_sub d sid delta col p =
     (case order_by_desc_timestamp
             (filter (\<lambda>i. of_salle d sid i \<and> i_timestamp i \<ge> p \<and> i_timestamp i < p + delta)
                (indices d)) of
        [] \<Rightarrow> None
      | i # _ \<Rightarrow> Some (col i))"

text \<open>
  The four keys \<^verbatim>\<open>min_X\<close>, \<^verbatim>\<open>max_X\<close>, \<^verbatim>\<open>avg_X\<close>, \<^verbatim>\<open>current_X\<close> of one
  column, and a row of the result: the period and the keys of the six columns.
\<close>

record agg =
  a_min :: "real option"
  a_max :: "real option"
  a_avg :: "real option"
  a_current :: "real option"

record bucket =
  b_period :: int
  b_score_global :: agg
  b_score_temp :: agg
  b_score_hum :: agg
  b_score_air :: agg
  b_score_bruit :: agg
  b_score_lum :: agg

definition annotate_col ::
  "db \<Rightarrow> int \<Rightarrow> int \<Rightarrow> indice_confort list \<Rightarrow> int \<Rightarrow> (indice_confort \<Rightarrow> real) \<Rightarrow> agg" where
  "annotate_col d sid delta grp p col =
     \<lparr>a_min = Min_agg (map col grp), a_max = Max_agg (map col grp),
      a_avg = Avg_agg (map col grp), a_current = current_sub d sid delta col p\<rparr>"

text \<open>
  The grouped query (lines 213-244): one row for each period of the selection, with the
  aggregates over the rows of the selection that have this period, ordered by period.
\<close>

definition group_by_period ::
  "db \<Rightarrow> int \<Rightarrow> (int \<Rightarrow> int) \<Rightarrow> int \<Rightarrow> indice_confort list \<Rightarrow> bucket list" where
  "group_by_period d sid trunc_func delta queryset =
     map (\<lambda>p.
            (let grp = filter (\<lambda>i. trunc_func (i_timestamp i) = p) queryset in
             \<lparr>b_period = p,
              b_score_global = annotate_col d sid delta grp p i_score_global,
              b_score_temp = annotate_col d sid delta grp p i_score_temperature,
              b_score_hum = annotate_col d sid delta grp p i_score_humidite,
              b_score_air = annotate_col d sid delta grp p i_score_air,
              b_score_bruit = annotate_col d sid delta grp p i_score_bruit,
              b_score_lum = annotate_col d sid delta grp p i_score_luminosite\<rparr>))
         (sort (remdups (map (\<lambda>i. trunc_func (i_timestamp i)) queryset)))"

text \<open>\<open>now\<close> is the value of \<^verbatim>\<open>timezone.now()\<close> at line 161.\<close>

definition get_comfort_evolution ::
  "int \<Rightarrow> db \<Rightarrow> int option \<Rightarrow> string \<Rightarrow> error + bucket list" where
  "get_comfort_evolution now d salle_id period =
     (case salle_id of
        None \<Rightarrow> Inl (ValueError ''salle_id is required'')
      | Some sid \<Rightarrow>
          if sid = 0 then Inl (ValueError ''salle_id is required'')
          else
            (case Min_agg (map i_timestamp (filter (of_salle d sid) (indices d))) of
               None \<Rightarrow> Inr []
             | Some earliest \<Rightarrow>
                 (let start_date = earliest;
                      end_date = now;
                      queryset = filter (\<lambda>i. of_salle d sid i \<and> i_timestamp i \<ge> start_date
                                              \<and> i_timestamp i \<le> end_date) (indices d);
                      (trunc_func, delta) = trunc_func_delta period
                  in Inr (group_by_period d sid trunc_func delta queryset))))"

subsection \<open>Notions used in the statements\<close>

text \<open>
  The comfort zones and the deviation as the specification words them: temperature
  [22,26], humidity [40,60], noise at most 60, light [300,500], air at most 1000; the
  deviation is the distance from the value to the nearest boundary of the zone.
\<close>

fun spec_comfort_zone :: "param \<Rightarrow> real \<Rightarrow> bool" where
  "spec_comfort_zone Temperature v = (22 \<le> v \<and> v \<le> 26)"
| "spec_comfort_zone Humidite v = (40 \<le> v \<and> v \<le> 60)"
| "spec_comfort_zone Bruit v = (v \<le> 60)"
| "spec_comfort_zone Luminosite v = (300 \<le> v \<and> v \<le> 500)"
| "spec_comfort_zone Air v = (v \<le> 1000)"


text \<open>
  The boundaries of the zones and the tolerance beyond a violated boundary, as the
  specification words them: 5 for the parameters bounded by a range, 10 for noise and air.
\<close>

fun spec_zone_min :: "param \<Rightarrow> int option" where
  "spec_zone_min Temperature = Some 22"
| "spec_zone_min Humidite = Some 40"
| "spec_zone_min Bruit = None"
| "spec_zone_min Luminosite = Some 300"
| "spec_zone_min Air = None"

fun spec_zone_max :: "param \<Rightarrow> int option" where
  "spec_zone_max Temperature = Some 26"
| "spec_zone_max Humidite = Some 60"
| "spec_zone_max Bruit = Some 60"
| "spec_zone_max Luminosite = Some 500"
| "spec_zone_max Air = Some 1000"

fun spec_tolerance :: "param \<Rightarrow> real" where
  "spec_tolerance Temperature = 5"
| "spec_tolerance Humidite = 5"
| "spec_tolerance Bruit = 10"
| "spec_tolerance Luminosite = 5"
| "spec_tolerance Air = 10"

text \<open>The value a measurement holds for a parameter.\<close>

fun param_value :: "mesure \<Rightarrow> param \<Rightarrow> real" where
  "param_value m Temperature = m_temperature m"
| "param_value m Humidite = m_humidite m"
| "param_value m Air = m_air m"
| "param_value m Bruit = m_bruit m"
| "param_value m Luminosite = m_luminosite m"

text \<open>The alerts one iteration of the loop of \<^verbatim>\<open>generate_alerts\<close> appends: none or one.\<close>

definition candidate :: "py_str \<Rightarrow> param \<Rightarrow> real \<Rightarrow> alert_data list" where
  "candidate F p v =
     (case out_of_threshold p v of
        None \<Rightarrow> []
      | Some (seuil, niv) \<Rightarrow>
          [\<lparr>ad_type = p, ad_valeur = v, ad_seuil = seuil, ad_niveau = niv,
            ad_message = ''Valeur '' @ param_key p @ '' ('' @ str_float F v @
                         '') hors seuil ('' @ str_int F seuil @ '')''\<rparr>])"

text \<open>
  The stores that ingestion can produce: it starts from a store without measurements and
  every step is a call of \<open>collect_measurement\<close>, whatever the clock, the request and
  the failures of the store.
\<close>

inductive reachable :: "db \<Rightarrow> bool" where
  reachable_init: "mesures d = [] \<Longrightarrow> reachable d"
| reachable_collect: "reachable d \<Longrightarrow> reachable (fst (collect_measurement E d data))"

text \<open>The value of \<^verbatim>\<open>salle_id\<close> after line 24: room 1 when the key is absent.\<close>

definition room_reference :: "request \<Rightarrow> int option" where
  "room_reference data = (case rq_salle_id data of None \<Rightarrow> Some 1 | Some v \<Rightarrow> v)"

text \<open>The dictionary \<^verbatim>\<open>scores\<close> of lines 48-54 for a measurement.\<close>

definition scores_of :: "mesure \<Rightarrow> scores" where
  "scores_of m =
     \<lparr>s_temperature = calculate_parameter_score (m_temperature m) Temperature,
      s_humidite = calculate_parameter_score (m_humidite m) Humidite,
      s_air = calculate_parameter_score (m_air m) Air,
      s_bruit = calculate_parameter_score (m_bruit m) Bruit,
      s_luminosite = calculate_parameter_score (m_luminosite m) Luminosite\<rparr>"

text \<open>The history of a room: its comfort indices, in the order of the table.\<close>

definition history :: "db \<Rightarrow> int \<Rightarrow> indice_confort list" where
  "history d sid = filter (of_salle d sid) (indices d)"


text \<open>The period a comfort index falls in: its truncated timestamp.\<close>

definition period_of :: "string \<Rightarrow> indice_confort \<Rightarrow> int" where
  "period_of period i = fst (trunc_func_delta period) (i_timestamp i)"

subsection \<open>Concrete inputs\<close>

text \<open>
  A measurement of room 1 with the given temperature and noise level, the other values
  inside their zones.
\<close>

definition ex_mesure :: "real \<Rightarrow> real \<Rightarrow> mesure" where
  "ex_mesure t b =
     \<lparr>m_id = 1, m_salle = 1, m_temperature = t, m_humidite = 50, m_air = 500,
      m_bruit = b, m_luminosite = 400, m_timestamp = 0\<rparr>"

definition ex_str :: py_str where
  "ex_str = \<lparr>str_float = (\<lambda>x. ''x''), str_int = (\<lambda>n. ''n'')\<rparr>"

definition ex_scores :: scores where
  "ex_scores = \<lparr>s_temperature = 100, s_humidite = 100, s_air = 100, s_bruit = 100,
                s_luminosite = 100\<rparr>"

text \<open>
  A clock starting at 1000, and a store whose writes go through as \<open>ok\<close> says; a store
  holding room 1 only; a request for a room reference and a temperature, without timestamp.
\<close>

definition ex_env :: "(store_write \<Rightarrow> bool) \<Rightarrow> env" where
  "ex_env ok = \<lparr>e_clock = (\<lambda>k. 1000 + int k), e_str = ex_str, e_write_ok = ok\<rparr>"

definition ex_db :: db where
  "ex_db = \<lparr>salles = [\<lparr>sa_id = 1, sa_nom = ''A101'', sa_description = []\<rparr>],
            mesures = [], indices = [], alertes = []\<rparr>"

definition ex_request :: "int option option \<Rightarrow> real \<Rightarrow> request" where
  "ex_request ref t =
     \<lparr>rq_salle_id = ref, rq_temperature = Some t, rq_humidite = Some 50,
      rq_air = Some 500, rq_bruit = Some 55, rq_luminosite = Some 400,
      rq_timestamp = None\<rparr>"

text \<open>
  The store after two requests for room 1 that carry their own timestamps, two hours
  apart, the second one later than the clock; the rows of the evolution they give.
\<close>

definition ex_indice :: "int \<Rightarrow> real \<Rightarrow> int \<Rightarrow> indice_confort" where
  "ex_indice k t ts =
     \<lparr>i_id = k, i_mesure = k, i_score_global = 75 + t / 4, i_statut = Comfort,
      i_score_temperature = t, i_score_humidite = 100, i_score_air = 100,
      i_score_bruit = 100, i_score_luminosite = 100, i_timestamp = ts\<rparr>"

definition ex_history_db :: db where
  "ex_history_db =
     \<lparr>salles = [\<lparr>sa_id = 1, sa_nom = ''A101'', sa_description = []\<rparr>],
      mesures = [ex_mesure 30 55\<lparr>m_timestamp := 100\<rparr>,
                 ex_mesure 24 55\<lparr>m_id := 2, m_timestamp := 7200000100\<rparr>],
      indices = [ex_indice 1 60 100, ex_indice 2 100 7200000100],
      alertes = [\<lparr>al_id = 1, al_mesure = 1, al_type = Temperature, al_valeur = 30,
                  al_seuil = 26, al_niveau = NWarning,
                  al_message = ''Valeur temperature (x) hors seuil (n)'',
                  al_timestamp = 1001\<rparr>]\<rparr>"

definition ex_agg :: "real \<Rightarrow> real \<Rightarrow> agg" where
  "ex_agg v c = \<lparr>a_min = Some v, a_max = Some v, a_avg = Some v, a_current = Some c\<rparr>"

definition ex_bucket :: "int \<Rightarrow> real \<Rightarrow> real \<Rightarrow> bucket" where
  "ex_bucket p t c =
     \<lparr>b_period = p, b_score_global = ex_agg (75 + t / 4) (75 + c / 4), b_score_temp = ex_agg t c,
      b_score_hum = ex_agg 100 100, b_score_air = ex_agg 100 100,
      b_score_bruit = ex_agg 100 100, b_score_lum = ex_agg 100 100\<rparr>"


section \<open>Properties\<close>

subsection \<open>Scores\<close>


subsection \<open>Double-precision arithmetic\<close>



lemma round_even_of_int [simp]: "round_even (of_int n) = n"
  by (simp add: round_even_def)






lemma pow2_mono: "i \<le> j \<Longrightarrow> (2::real) powi i \<le> 2 powi j"
  by (rule power_int_increasing) simp_all

lemma ulp_exp_eqI:
  "k \<le> K \<Longrightarrow> K \<le> k + int n \<Longrightarrow> K = k \<or> 2 powi (K + 52) \<le> a \<Longrightarrow> a < 2 powi (K + 53)
     \<Longrightarrow> ulp_exp n k a = K"
proof (induction n arbitrary: k)
  case 0 then show ?case by simp
next
  case (Suc n)
  show ?case
  proof (cases "a < 2 powi (k + 53)")
    case True
    have "K = k"
    proof (rule ccontr)
      assume ne: "K \<noteq> k"
      with Suc.prems have "2 powi (K + 52) \<le> a" "k + 53 \<le> K + 52" by auto
      with pow2_mono [of "k + 53" "K + 52"] True show False by linarith
    qed
    with True show ?thesis by simp
  next
    case False
    have ne: "K \<noteq> k" using False Suc.prems(4) by auto
    with Suc.prems have "k + 1 \<le> K" "K \<le> (k + 1) + int n" "2 powi (K + 52) \<le> a" by auto
    with Suc.IH [of "k + 1"] Suc.prems(4) False show ?thesis by simp
  qed
qed




lemma ulp_exp_bound: "a < 2 powi (K + 53) \<Longrightarrow> k \<le> K \<Longrightarrow> ulp_exp n k a \<le> K"
proof (induction n arbitrary: k)
  case 0 then show ?case by simp
next
  case (Suc n)
  show ?case
  proof (cases "a < 2 powi (k + 53)")
    case True with Suc.prems show ?thesis by simp
  next
    case False
    have "k \<noteq> K" using False Suc.prems(1) by auto
    with Suc.prems have "k + 1 \<le> K" by simp
    from Suc.IH [OF Suc.prems(1) this] False show ?thesis by simp
  qed
qed


lemma round_double_eqI:
  assumes "- 1074 \<le> K" "K \<le> 971" "K = - 1074 \<or> 2 powi (K + 52) \<le> \<bar>x\<bar>" "\<bar>x\<bar> < 2 powi (K + 53)"
  shows "round_double x = of_int (round_even (x / 2 powi K)) * 2 powi K"
proof -
  have "ulp_exp 2045 (- 1074) \<bar>x\<bar> = K"
    using assms by (intro ulp_exp_eqI) simp_all
  then show ?thesis by (simp add: round_double_def ulp_def)
qed





lemma round_double_0 [simp]: "round_double 0 = 0"
  by (simp add: round_double_def round_even_def)

lemma weights_values:
  "round_double (1 / 4) = 1 / 4"
  "round_double (1 / 5) = 3602879701896397 / 2 ^ 54"
  "round_double (1 / 10) = 3602879701896397 / 2 ^ 55"
proof -
  show "round_double (1 / 4) = 1 / 4"
    by (subst round_double_eqI [where K = "- 54"]) (simp_all add: round_even_def)
  show "round_double (1 / 5) = 3602879701896397 / 2 ^ 54"
    by (subst round_double_eqI [where K = "- 55"]) (simp_all add: round_even_def)
  show "round_double (1 / 10) = 3602879701896397 / 2 ^ 55"
    by (subst round_double_eqI [where K = "- 56"]) (simp_all add: round_even_def)
qed

lemma round_double_of_int:
  assumes "\<bar>m\<bar> < 2 ^ 53"
  shows "round_double (of_int m) = of_int m"
proof -
  let ?k = "ulp_exp 2045 (- 1074) \<bar>of_int m\<bar>"
  have "\<bar>real_of_int m\<bar> < 2 powi (0 + 53)"
  proof -
    from assms have "real_of_int \<bar>m\<bar> < real_of_int (2 ^ 53)" by (simp only: of_int_less_iff)
    then show ?thesis by simp
  qed
  then have k0: "?k \<le> 0" by (intro ulp_exp_bound) simp_all
  define n where "n = nat (- ?k)"
  with k0 have k: "?k = - int n" by simp
  have "of_int m / 2 powi ?k = (of_int (m * 2 ^ n) :: real)"
    unfolding k by (simp add: power_int_minus field_simps)
  then have "round_even (of_int m / 2 powi ?k) = m * 2 ^ n"
    by (simp only: round_even_of_int)
  then have "round_double (of_int m) = of_int (m * 2 ^ n) * 2 powi ?k"
    by (simp add: round_double_def ulp_def)
  also have "\<dots> = of_int m"
    unfolding k by (simp add: power_int_minus field_simps)
  finally show ?thesis .
qed

lemma round_double_numeral: "(numeral n :: int) < 2 ^ 53 \<Longrightarrow> round_double (numeral n) = numeral n"
  using round_double_of_int [of "numeral n"] by simp

lemma global_score_100:
  "calculate_global_score \<lparr>s_temperature = 100, s_humidite = 100, s_air = 100,
     s_bruit = 100, s_luminosite = 100\<rparr> = 100"
proof -
  have h: "round_double (100 * (3602879701896397 / 2 ^ 54)) = 20"
    by (subst round_double_eqI [where K = "- 48"]) (simp_all add: round_even_def)
  have l: "round_double (100 * (3602879701896397 / 2 ^ 55)) = 10"
    by (subst round_double_eqI [where K = "- 49"]) (simp_all add: round_even_def)
  show ?thesis
    using h l
    by (simp add: calculate_global_score_def float_add_def float_mul_def weights_values round_double_numeral)
qed

lemma global_score_60:
  "calculate_global_score \<lparr>s_temperature = 60, s_humidite = 100, s_air = 100,
     s_bruit = 100, s_luminosite = 100\<rparr> = 90"
proof -
  have h: "round_double (100 * (3602879701896397 / 2 ^ 54)) = 20"
    by (subst round_double_eqI [where K = "- 48"]) (simp_all add: round_even_def)
  have l: "round_double (100 * (3602879701896397 / 2 ^ 55)) = 10"
    by (subst round_double_eqI [where K = "- 49"]) (simp_all add: round_even_def)
  show ?thesis
    using h l
    by (simp add: calculate_global_score_def float_add_def float_mul_def weights_values round_double_numeral)
qed


lemma global_score_cex:
  "calculate_global_score \<lparr>s_temperature = 44, s_humidite = 99, s_air = 100,
     s_bruit = 43, s_luminosite = 56\<rparr> = 4925812092436479 / 2 ^ 46"
proof -
  have f11: "round_double 11 = 11" and f25: "round_double 25 = 25"
    by (simp_all add: round_double_numeral)
  have p2: "round_double (99 * (3602879701896397 / 2 ^ 54)) = 5573204538870989 / 2 ^ 48"
    by (subst round_double_eqI [where K = "- 48"]) (simp_all add: round_even_def)
  have s1: "round_double (11 + 5573204538870989 / 2 ^ 48) = 8669429282688205 / 2 ^ 48"
    by (subst round_double_eqI [where K = "- 48"]) (simp_all add: round_even_def)
  have s2: "round_double (8669429282688205 / 2 ^ 48 + 25) = 3926575925113651 / 2 ^ 46"
    by (subst round_double_eqI [where K = "- 47"]) (simp_all add: round_even_def)
  have p4: "round_double (43 * (3602879701896397 / 2 ^ 54)) = 4841369599423283 / 2 ^ 49"
    by (subst round_double_eqI [where K = "- 49"]) (simp_all add: round_even_def)
  have s3: "round_double (3926575925113651 / 2 ^ 46 + 4841369599423283 / 2 ^ 49)
              = 4531747125041561 / 2 ^ 46"
    by (subst round_double_eqI [where K = "- 46"]) (simp_all add: round_even_def)
  have p5: "round_double (56 * (3602879701896397 / 2 ^ 55)) = 6305039478318695 / 2 ^ 50"
    by (subst round_double_eqI [where K = "- 50"]) (simp_all add: round_even_def)
  have s4: "round_double (4531747125041561 / 2 ^ 46 + 6305039478318695 / 2 ^ 50)
              = 4925812092436479 / 2 ^ 46"
    by (subst round_double_eqI [where K = "- 46"]) (simp_all add: round_even_def)
  have "calculate_global_score \<lparr>s_temperature = 44, s_humidite = 99, s_air = 100,
     s_bruit = 43, s_luminosite = 56\<rparr>
     = round_double (round_double (round_double (round_double (round_double 11 + round_double (99 * (3602879701896397 / 2 ^ 54))) + round_double 25)
                 + round_double (43 * (3602879701896397 / 2 ^ 54)))
            + round_double (56 * (3602879701896397 / 2 ^ 55)))"
    by (simp add: calculate_global_score_def float_add_def float_mul_def weights_values)
  also have "\<dots> = 4925812092436479 / 2 ^ 46"
    by (simp only: f11 f25 p2 s1 s2 p4 s3 p5 s4)
  finally show ?thesis .
qed




text \<open>
  The claim as stated fails: on the scores 44, 99, 100, 43 and 56 the exact weighted sum
  is 70, the rounded one is the double just below 70, and the status is warning instead
  of comfort.
\<close>

theorem calculate_global_score_exact_counterexample:
  "calculate_global_score \<lparr>s_temperature = 44, s_humidite = 99, s_air = 100,
        s_bruit = 43, s_luminosite = 56\<rparr> = 4925812092436479 / 2 ^ 46
   \<and> 0.25 * 44 + 0.20 * 99 + 0.25 * 100 + 0.20 * 43 + 0.10 * 56 = (70::real)
   \<and> calculate_global_score \<lparr>s_temperature = 44, s_humidite = 99, s_air = 100,
        s_bruit = 43, s_luminosite = 56\<rparr> \<noteq> 70
   \<and> determine_status (calculate_global_score \<lparr>s_temperature = 44, s_humidite = 99,
        s_air = 100, s_bruit = 43, s_luminosite = 56\<rparr>) = Warning
   \<and> determine_status 70 = Comfort"
  by (simp add: global_score_cex determine_status_def)

text \<open>
  Claim C3.  The status is comfort from 70 on, warning from 40 up to 70 excluded, and
  danger below 40; the thresholds are exact: 70 is comfort, 69.999 warning, 40 warning
  and 39.999 danger.
\<close>

theorem determine_status_bands:
  "(g \<ge> 70 \<longrightarrow> determine_status g = Comfort)
   \<and> (40 \<le> g \<and> g < 70 \<longrightarrow> determine_status g = Warning)
   \<and> (g < 40 \<longrightarrow> determine_status g = Danger)
   \<and> determine_status 70 = Comfort \<and> determine_status 69.999 = Warning
   \<and> determine_status 40 = Warning \<and> determine_status 39.999 = Danger"
  by (simp add: determine_status_def)

theorem determine_status_bands_witness:
  "(85::real) \<ge> 70 \<and> determine_status 85 = Comfort
   \<and> (40::real) \<le> 55 \<and> (55::real) < 70 \<and> determine_status 55 = Warning
   \<and> (12::real) < 40 \<and> determine_status 12 = Danger"
  using determine_status_bands [of 85] determine_status_bands [of 55]
    determine_status_bands [of 12]
  by simp

subsection \<open>Alert generation\<close>

text \<open>The loop appends, parameter after parameter, the alerts of each iteration.\<close>

lemma generate_alerts_loop_candidates:
  "generate_alerts_loop F items acc = acc @ concat (map (\<lambda>(p, v). candidate F p v) items)"
  by (induction items arbitrary: acc) (auto simp: candidate_def split: option.splits)

lemma generate_alerts_candidates:
  "generate_alerts F m sc =
     candidate F Temperature (m_temperature m) @ candidate F Humidite (m_humidite m) @
     candidate F Air (m_air m) @ candidate F Bruit (m_bruit m) @
     candidate F Luminosite (m_luminosite m)"
  by (simp add: generate_alerts_def generate_alerts_loop_candidates params_items_def)

lemma filter_candidate:
  "filter (\<lambda>a. ad_type a = p) (candidate F q v) = (if q = p then candidate F q v else [])"
  by (auto simp: candidate_def split: option.splits)

lemma filter_generate_alerts:
  "filter (\<lambda>a. ad_type a = p) (generate_alerts F m sc) = candidate F p (param_value m p)"
  by (cases p) (simp_all add: generate_alerts_candidates filter_candidate)

lemma candidate_empty_iff: "candidate F p v = [] \<longleftrightarrow> spec_comfort_zone p v"
  by (cases p) (auto simp: candidate_def out_of_threshold_def Let_def split: option.splits)

lemma map_type_candidate:
  "map ad_type (candidate F p v) = (if spec_comfort_zone p v then [] else [p])"
  by (cases p) (auto simp: candidate_def out_of_threshold_def Let_def split: option.splits)

text \<open>
  Claim C4.  For a parameter whose value lies outside its zone, that is below the minimum
  or above the maximum the specification gives, the alerts of a measurement hold exactly
  one alert of that parameter.  Its threshold is the violated boundary, and its level is
  warning when the value exceeds the boundary by at most the tolerance and danger
  otherwise; the tolerance is 5 for temperature, humidity and light, and 10 for noise
  and air.
\<close>

theorem generate_alerts_out_of_zone:
  "(\<forall>lo. spec_zone_min p = Some lo \<and> param_value m p < real_of_int lo \<longrightarrow>
      (\<exists>a. filter (\<lambda>a. ad_type a = p) (generate_alerts F m sc) = [a]
           \<and> ad_valeur a = param_value m p \<and> ad_seuil a = lo
           \<and> ad_niveau a =
               (if real_of_int lo - param_value m p \<le> spec_tolerance p
                then NWarning else NDanger)))
   \<and> (\<forall>hi. spec_zone_max p = Some hi \<and> param_value m p > real_of_int hi \<longrightarrow>
      (\<exists>a. filter (\<lambda>a. ad_type a = p) (generate_alerts F m sc) = [a]
           \<and> ad_valeur a = param_value m p \<and> ad_seuil a = hi
           \<and> ad_niveau a =
               (if param_value m p - real_of_int hi \<le> spec_tolerance p
                then NWarning else NDanger)))
   \<and> (\<not> spec_comfort_zone p (param_value m p) \<longrightarrow>
        (\<exists>lo. spec_zone_min p = Some lo \<and> param_value m p < real_of_int lo)
        \<or> (\<exists>hi. spec_zone_max p = Some hi \<and> param_value m p > real_of_int hi))"
  unfolding filter_generate_alerts
  by (cases p) (auto simp: candidate_def out_of_threshold_def Let_def)

theorem generate_alerts_out_of_zone_witness:
  "spec_zone_min Temperature = Some 22
   \<and> param_value (ex_mesure 21 75\<lparr>m_humidite := 10, m_air := 1005\<rparr>) Temperature
        < real_of_int 22
   \<and> (\<exists>a. filter (\<lambda>a. ad_type a = Temperature)
              (generate_alerts ex_str (ex_mesure 21 75\<lparr>m_humidite := 10, m_air := 1005\<rparr>)
                 ex_scores) = [a]
          \<and> ad_valeur a = 21 \<and> ad_seuil a = 22 \<and> ad_niveau a = NWarning)
   \<and> spec_zone_min Humidite = Some 40
   \<and> param_value (ex_mesure 21 75\<lparr>m_humidite := 10, m_air := 1005\<rparr>) Humidite
        < real_of_int 40
   \<and> (\<exists>a. filter (\<lambda>a. ad_type a = Humidite)
              (generate_alerts ex_str (ex_mesure 21 75\<lparr>m_humidite := 10, m_air := 1005\<rparr>)
                 ex_scores) = [a]
          \<and> ad_valeur a = 10 \<and> ad_seuil a = 40 \<and> ad_niveau a = NDanger)
   \<and> spec_zone_max Bruit = Some 60
   \<and> param_value (ex_mesure 21 75\<lparr>m_humidite := 10, m_air := 1005\<rparr>) Bruit
        > real_of_int 60
   \<and> (\<exists>a. filter (\<lambda>a. ad_type a = Bruit)
              (generate_alerts ex_str (ex_mesure 21 75\<lparr>m_humidite := 10, m_air := 1005\<rparr>)
                 ex_scores) = [a]
          \<and> ad_valeur a = 75 \<and> ad_seuil a = 60 \<and> ad_niveau a = NDanger)
   \<and> spec_zone_max Air = Some 1000
   \<and> param_value (ex_mesure 21 75\<lparr>m_humidite := 10, m_air := 1005\<rparr>) Air
        > real_of_int 1000
   \<and> (\<exists>a. filter (\<lambda>a. ad_type a = Air)
              (generate_alerts ex_str (ex_mesure 21 75\<lparr>m_humidite := 10, m_air := 1005\<rparr>)
                 ex_scores) = [a]
          \<and> ad_valeur a = 1005 \<and> ad_seuil a = 1000 \<and> ad_niveau a = NWarning)"
  using
    generate_alerts_out_of_zone [of Temperature
      "ex_mesure 21 75\<lparr>m_humidite := 10, m_air := 1005\<rparr>" ex_str ex_scores]
    generate_alerts_out_of_zone [of Humidite
      "ex_mesure 21 75\<lparr>m_humidite := 10, m_air := 1005\<rparr>" ex_str ex_scores]
    generate_alerts_out_of_zone [of Bruit
      "ex_mesure 21 75\<lparr>m_humidite := 10, m_air := 1005\<rparr>" ex_str ex_scores]
    generate_alerts_out_of_zone [of Air
      "ex_mesure 21 75\<lparr>m_humidite := 10, m_air := 1005\<rparr>" ex_str ex_scores]
  by (simp add: ex_mesure_def)

text \<open>
  Claim C10.  The alerts of a measurement are a function of the measurement alone (the
  scores passed in play no part), listed in the order temperature, humidity, air, noise,
  light of the parameters that are out of their zone.
\<close>

theorem generate_alerts_order:
  "map ad_type (generate_alerts F m sc) =
     filter (\<lambda>p. \<not> spec_comfort_zone p (param_value m p))
       [Temperature, Humidite, Air, Bruit, Luminosite]
   \<and> generate_alerts F m sc = generate_alerts F m sc'"
  by (simp add: generate_alerts_candidates map_type_candidate)

subsection \<open>Ingestion\<close>

text \<open>The loop over the alerts writes to the table of alerts only.\<close>

lemma create_alerts_tables:
  "create_alerts E mid k as d created = (d', res) \<Longrightarrow>
     salles d' = salles d \<and> mesures d' = mesures d \<and> indices d' = indices d"
  by (induction E mid k as d created rule: create_alerts.induct)
     (auto simp: Let_def alerte_is_valid_def split: if_splits)

lemma create_alerts_Inr:
  "create_alerts E mid k as d created = (d', Inr cr) \<Longrightarrow>
     \<exists>new. cr = created @ new \<and> alertes d' = alertes d @ new
        \<and> (\<forall>al \<in> set new. al_mesure al = mid)
        \<and> (mid \<in> set (map m_id (mesures d)) \<and> (\<forall>a \<in> set as. ad_message a \<noteq> []) \<longrightarrow>
             map (\<lambda>al. (al_type al, al_valeur al, al_seuil al, al_niveau al, al_message al)) new
             = map (\<lambda>a. (ad_type a, ad_valeur a, real_of_int (ad_seuil a), ad_niveau a, ad_message a)) as)"
proof (induction E mid k as d created arbitrary: cr rule: create_alerts.induct)
  case (1 E mid k d created)
  then show ?case by simp
next
  case (2 E mid k a rest d created)
  show ?case
  proof (cases "alerte_is_valid d mid a")
    case True
    with "2.prems" have ok: "e_write_ok E (WAlerte k)" by (auto split: if_splits)
    define row where "row = \<lparr>al_id = fresh_id (map al_id (alertes d)), al_mesure = mid,
                       al_type = ad_type a, al_valeur = ad_valeur a,
                       al_seuil = real_of_int (ad_seuil a), al_niveau = ad_niveau a,
                       al_message = ad_message a, al_timestamp = e_clock E (Suc k)\<rparr>"
    from "2.prems" True ok have rec:
      "create_alerts E mid (Suc k) rest (d\<lparr>alertes := alertes d @ [row]\<rparr>) (created @ [row]) = (d', Inr cr)"
      by (simp add: row_def Let_def)
    have "\<exists>new. cr = (created @ [row]) @ new \<and> alertes d' = alertes (d\<lparr>alertes := alertes d @ [row]\<rparr>) @ new
        \<and> (\<forall>al \<in> set new. al_mesure al = mid)
        \<and> (mid \<in> set (map m_id (mesures (d\<lparr>alertes := alertes d @ [row]\<rparr>))) \<and> (\<forall>a \<in> set rest. ad_message a \<noteq> []) \<longrightarrow>
             map (\<lambda>al. (al_type al, al_valeur al, al_seuil al, al_niveau al, al_message al)) new
             = map (\<lambda>a. (ad_type a, ad_valeur a, real_of_int (ad_seuil a), ad_niveau a, ad_message a)) rest)"
      using "2.IH"(1) True ok rec by (simp add: row_def)
    then obtain new where n: "cr = (created @ [row]) @ new"
        "alertes d' = (alertes d @ [row]) @ new" "\<forall>al \<in> set new. al_mesure al = mid"
        "mid \<in> set (map m_id (mesures d)) \<and> (\<forall>a \<in> set rest. ad_message a \<noteq> []) \<longrightarrow>
             map (\<lambda>al. (al_type al, al_valeur al, al_seuil al, al_niveau al, al_message al)) new
             = map (\<lambda>a. (ad_type a, ad_valeur a, real_of_int (ad_seuil a), ad_niveau a, ad_message a)) rest"
      by auto
    show ?thesis
      by (rule exI [of _ "row # new"]) (use n in \<open>simp add: row_def\<close>)
  next
    case False
    with "2.prems" have rec: "create_alerts E mid (Suc k) rest d created = (d', Inr cr)"
      by simp
    from "2.IH"(2) [OF False rec] False show ?thesis
      by (auto simp: alerte_is_valid_def)
  qed
qed

lemma candidate_message: "a \<in> set (candidate F p v) \<Longrightarrow> ad_message a \<noteq> []"
  by (auto simp: candidate_def split: option.splits)

lemma generate_alerts_message: "a \<in> set (generate_alerts F m sc) \<Longrightarrow> ad_message a \<noteq> []"
  by (auto simp: generate_alerts_candidates dest: candidate_message)

lemma atomic_body_Inr:
  assumes "atomic_body E sid t h a b l ts d = (d', Inr r)"
  shows "r_mesure r = \<lparr>m_id = fresh_id (map m_id (mesures d)), m_salle = sid,
                  m_temperature = t, m_humidite = h, m_air = a, m_bruit = b,
                  m_luminosite = l, m_timestamp = ts\<rparr>"
    and "i_mesure (r_indice_confort r) = m_id (r_mesure r)"
    and "i_timestamp (r_indice_confort r) = m_timestamp (r_mesure r)"
    and "i_statut (r_indice_confort r) =
           determine_status (calculate_global_score (scores_of (r_mesure r)))"
    and "salles d' = salles d"
    and "mesures d' = mesures d @ [r_mesure r]"
    and "indices d' = indices d @ [r_indice_confort r]"
    and "alertes d' = alertes d @ r_alertes r"
    and "\<forall>al \<in> set (r_alertes r). al_mesure al = m_id (r_mesure r)"
    and "map (\<lambda>al. (al_type al, al_valeur al, al_seuil al, al_niveau al, al_message al))
             (r_alertes r)
         = map (\<lambda>a. (ad_type a, ad_valeur a, real_of_int (ad_seuil a), ad_niveau a, ad_message a))
             (generate_alerts (e_str E) (r_mesure r) (scores_of (r_mesure r)))"
proof -
  define m where "m = \<lparr>m_id = fresh_id (map m_id (mesures d)), m_salle = sid,
                  m_temperature = t, m_humidite = h, m_air = a, m_bruit = b,
                  m_luminosite = l, m_timestamp = ts\<rparr>"
  define d1 where "d1 = d\<lparr>mesures := mesures d @ [m]\<rparr>"
  define sc where "sc = scores_of m"
  define i where "i = \<lparr>i_id = fresh_id (map i_id (indices d1)), i_mesure = m_id m,
                       i_score_global = calculate_global_score sc,
                       i_statut = determine_status (calculate_global_score sc),
                       i_score_temperature = s_temperature sc,
                       i_score_humidite = s_humidite sc,
                       i_score_air = s_air sc,
                       i_score_bruit = s_bruit sc,
                       i_score_luminosite = s_luminosite sc,
                       i_timestamp = m_timestamp m\<rparr>"
  define d2 where "d2 = d1\<lparr>indices := indices d1 @ [i]\<rparr>"
  from assms obtain created where
    ca: "create_alerts E (m_id m) 0 (generate_alerts (e_str E) m sc) d2 [] = (d', Inr created)"
    and r: "r = \<lparr>r_mesure = m, r_indice_confort = i, r_alertes = created\<rparr>"
    unfolding atomic_body_def m_def d1_def sc_def scores_of_def i_def d2_def Let_def
    by (auto split: if_splits prod.splits sum.splits)
  from create_alerts_tables [OF ca] have tabs:
    "salles d' = salles d" "mesures d' = mesures d @ [m]" "indices d' = indices d @ [i]"
    by (simp_all add: d2_def d1_def)
  have mid: "m_id m \<in> set (map m_id (mesures d2))"
    by (simp add: d2_def d1_def)
  from create_alerts_Inr [OF ca] mid generate_alerts_message obtain new where
    new: "created = new" "alertes d' = alertes d2 @ new"
      "\<forall>al \<in> set new. al_mesure al = m_id m"
      "map (\<lambda>al. (al_type al, al_valeur al, al_seuil al, al_niveau al, al_message al)) new
         = map (\<lambda>a. (ad_type a, ad_valeur a, real_of_int (ad_seuil a), ad_niveau a, ad_message a))
             (generate_alerts (e_str E) m sc)"
    by auto
  show "r_mesure r = \<lparr>m_id = fresh_id (map m_id (mesures d)), m_salle = sid,
                  m_temperature = t, m_humidite = h, m_air = a, m_bruit = b,
                  m_luminosite = l, m_timestamp = ts\<rparr>"
    by (simp add: r m_def)
  show "i_mesure (r_indice_confort r) = m_id (r_mesure r)" by (simp add: r i_def)
  show "i_timestamp (r_indice_confort r) = m_timestamp (r_mesure r)" by (simp add: r i_def)
  show "i_statut (r_indice_confort r) =
           determine_status (calculate_global_score (scores_of (r_mesure r)))"
    by (simp add: r i_def sc_def)
  show "salles d' = salles d" by (rule tabs)
  show "mesures d' = mesures d @ [r_mesure r]" by (simp add: tabs r)
  show "indices d' = indices d @ [r_indice_confort r]" by (simp add: tabs r)
  show "alertes d' = alertes d @ r_alertes r" using new by (simp add: r d2_def d1_def)
  show "\<forall>al \<in> set (r_alertes r). al_mesure al = m_id (r_mesure r)" using new by (simp add: r)
  show "map (\<lambda>al. (al_type al, al_valeur al, al_seuil al, al_niveau al, al_message al))
             (r_alertes r)
         = map (\<lambda>a. (ad_type a, ad_valeur a, real_of_int (ad_seuil a), ad_niveau a, ad_message a))
             (generate_alerts (e_str E) (r_mesure r) (scores_of (r_mesure r)))"
    using new by (simp add: r sc_def)
qed

lemma find_Some_set: "find P xs = Some x \<Longrightarrow> x \<in> set xs \<and> P x"
  by (induction xs) (auto split: if_splits)

lemma collect_measurement_Inl: "collect_measurement E d data = (d', Inl e) \<Longrightarrow> d' = d"
  by (auto simp: collect_measurement_def transaction_atomic_def Let_def
      split: option.splits if_splits prod.splits sum.splits)

lemma collect_measurement_Inr:
  assumes "collect_measurement E d data = (d', Inr r)"
  shows "\<exists>sid t h a b l.
           room_reference data = Some sid \<and> sid \<noteq> 0 \<and> sid \<in> sa_id ` set (salles d) \<and>
           rq_temperature data = Some t \<and> rq_humidite data = Some h \<and> rq_air data = Some a \<and>
           rq_bruit data = Some b \<and> rq_luminosite data = Some l \<and>
           atomic_body E sid t h a b l
             (case rq_timestamp data of None \<Rightarrow> e_clock E 0 | Some ts \<Rightarrow> ts) d = (d', Inr r)"
  using assms
  unfolding collect_measurement_def transaction_atomic_def Let_def room_reference_def
  by (auto split: option.splits if_splits prod.splits sum.splits dest!: find_Some_set)

lemma collect_measurement_result:
  assumes "collect_measurement E d data = (d', res)"
  shows "case res of
           Inl e \<Rightarrow> d' = d
         | Inr r \<Rightarrow>
             salles d' = salles d \<and> mesures d' = mesures d @ [r_mesure r] \<and>
             indices d' = indices d @ [r_indice_confort r] \<and>
             i_mesure (r_indice_confort r) = m_id (r_mesure r) \<and>
             alertes d' = alertes d @ r_alertes r \<and>
             (\<forall>al \<in> set (r_alertes r). al_mesure al = m_id (r_mesure r)) \<and>
             map al_type (r_alertes r) =
               map ad_type (generate_alerts (e_str E) (r_mesure r) (scores_of (r_mesure r)))"
proof (cases res)
  case (Inl e)
  with assms show ?thesis by (simp add: collect_measurement_Inl)
next
  case (Inr r)
  with assms obtain sid t h a b l ts where
    ab: "atomic_body E sid t h a b l ts d = (d', Inr r)"
    using collect_measurement_Inr [of E d data d' r] by fastforce
  have "map al_type (r_alertes r) =
          map ad_type (generate_alerts (e_str E) (r_mesure r) (scores_of (r_mesure r)))"
    using arg_cong [OF atomic_body_Inr(10) [OF ab], of "map fst"] by (simp add: comp_def)
  with atomic_body_Inr(2,5,6,7,8,9) [OF ab] Inr show ?thesis by simp
qed

lemma collect_measurement_invariant:
  assumes "\<forall>m \<in> set (mesures d). \<exists>i \<in> set (indices d). i_mesure i = m_id m"
  shows "\<forall>m \<in> set (mesures (fst (collect_measurement E d data))).
           \<exists>i \<in> set (indices (fst (collect_measurement E d data))). i_mesure i = m_id m"
proof -
  obtain d' res where c: "collect_measurement E d data = (d', res)"
    by (cases "collect_measurement E d data")
  from collect_measurement_result [OF c] assms have
    "\<forall>m \<in> set (mesures d'). \<exists>i \<in> set (indices d'). i_mesure i = m_id m"
    by (cases res) auto
  with c show ?thesis by simp
qed

lemma reachable_invariant:
  "reachable d \<Longrightarrow> \<forall>m \<in> set (mesures d). \<exists>i \<in> set (indices d). i_mesure i = m_id m"
proof (induction rule: reachable.induct)
  case (reachable_init d)
  then show ?case by simp
next
  case (reachable_collect d E data)
  from reachable_collect.IH show ?case by (rule collect_measurement_invariant)
qed

subsection \<open>Runs on the concrete inputs\<close>

lemmas ex_simps = ex_env_def ex_db_def ex_request_def ex_str_def collect_measurement_def
  transaction_atomic_def atomic_body_def fresh_id_def indice_is_valid_def alerte_is_valid_def
  generate_alerts_def params_items_def out_of_threshold_def calculate_parameter_score_def
  global_score_60 global_score_100 determine_status_def Let_def

lemma ex_collect_30:
  "collect_measurement (ex_env (\<lambda>w. True)) ex_db (ex_request None 30) =
     (ex_db\<lparr>mesures := [ex_mesure 30 55\<lparr>m_timestamp := 1000\<rparr>],
            indices := [\<lparr>i_id = 1, i_mesure = 1, i_score_global = 90, i_statut = Comfort,
                        i_score_temperature = 60, i_score_humidite = 100, i_score_air = 100,
                        i_score_bruit = 100, i_score_luminosite = 100, i_timestamp = 1000\<rparr>],
            alertes := [\<lparr>al_id = 1, al_mesure = 1, al_type = Temperature, al_valeur = 30,
                        al_seuil = 26, al_niveau = NWarning,
                        al_message = ''Valeur temperature (x) hors seuil (n)'',
                        al_timestamp = 1001\<rparr>]\<rparr>,
      Inr \<lparr>r_mesure = ex_mesure 30 55\<lparr>m_timestamp := 1000\<rparr>,
           r_indice_confort = \<lparr>i_id = 1, i_mesure = 1, i_score_global = 90, i_statut = Comfort,
                        i_score_temperature = 60, i_score_humidite = 100, i_score_air = 100,
                        i_score_bruit = 100, i_score_luminosite = 100, i_timestamp = 1000\<rparr>,
           r_alertes = [\<lparr>al_id = 1, al_mesure = 1, al_type = Temperature, al_valeur = 30,
                        al_seuil = 26, al_niveau = NWarning,
                        al_message = ''Valeur temperature (x) hors seuil (n)'',
                        al_timestamp = 1001\<rparr>]\<rparr>)"
  by (simp add: ex_simps ex_mesure_def)

lemma ex_collect_24:
  "collect_measurement (ex_env (\<lambda>w. True)) ex_db (ex_request None 24) =
     (ex_db\<lparr>mesures := [ex_mesure 24 55\<lparr>m_timestamp := 1000\<rparr>],
            indices := [\<lparr>i_id = 1, i_mesure = 1, i_score_global = 100, i_statut = Comfort,
                        i_score_temperature = 100, i_score_humidite = 100, i_score_air = 100,
                        i_score_bruit = 100, i_score_luminosite = 100, i_timestamp = 1000\<rparr>]\<rparr>,
      Inr \<lparr>r_mesure = ex_mesure 24 55\<lparr>m_timestamp := 1000\<rparr>,
           r_indice_confort = \<lparr>i_id = 1, i_mesure = 1, i_score_global = 100, i_statut = Comfort,
                        i_score_temperature = 100, i_score_humidite = 100, i_score_air = 100,
                        i_score_bruit = 100, i_score_luminosite = 100, i_timestamp = 1000\<rparr>,
           r_alertes = []\<rparr>)"
  by (simp add: ex_simps ex_mesure_def)

lemma ex_collect_fail_indice:
  "atomic_body (ex_env (\<lambda>w. w \<noteq> WIndice)) 1 30 50 500 55 400 1000 ex_db =
     (ex_db\<lparr>mesures := [ex_mesure 30 55\<lparr>m_timestamp := 1000\<rparr>]\<rparr>, Inl DatabaseError)
   \<and> collect_measurement (ex_env (\<lambda>w. w \<noteq> WIndice)) ex_db (ex_request None 30) =
     (ex_db, Inl DatabaseError)"
  by (simp add: ex_simps ex_mesure_def)

lemma ex_collect_fail_alert:
  "collect_measurement (ex_env (\<lambda>w. w \<noteq> WAlerte 0)) ex_db (ex_request None 30) =
     (ex_db, Inl DatabaseError)"
  by (simp add: ex_simps ex_mesure_def)

lemma ex_collect_unknown:
  "collect_measurement (ex_env (\<lambda>w. True)) ex_db (ex_request (Some (Some 7)) 30) =
     (ex_db, Inl Http404)"
  by (simp add: ex_simps ex_mesure_def)

lemma ex_mesure_in_zone:
  "\<forall>q. spec_comfort_zone q (param_value (ex_mesure 24 55\<lparr>m_timestamp := ts\<rparr>) q)"
proof
  fix q show "spec_comfort_zone q (param_value (ex_mesure 24 55\<lparr>m_timestamp := ts\<rparr>) q)"
    by (cases q) (simp_all add: ex_mesure_def)
qed

text \<open>
  Claim C5.  A parameter inside its zone gives no alert.  A measurement with all five
  values inside their zones gives no alert at all and the status comfort, also when it
  goes through ingestion.
\<close>

theorem in_zone_no_alert:
  "(spec_comfort_zone p (param_value m p) \<longrightarrow>
      filter (\<lambda>a. ad_type a = p) (generate_alerts F m sc) = [])
   \<and> ((\<forall>q. spec_comfort_zone q (param_value m q)) \<longrightarrow>
        generate_alerts F m sc = []
        \<and> determine_status (calculate_global_score (scores_of m)) = Comfort)
   \<and> (collect_measurement E d data = (d', Inr r)
        \<and> (\<forall>q. spec_comfort_zone q (param_value (r_mesure r) q)) \<longrightarrow>
        r_alertes r = [] \<and> alertes d' = alertes d
        \<and> i_statut (r_indice_confort r) = Comfort)"
proof (intro conjI impI)
  assume "spec_comfort_zone p (param_value m p)"
  then show "filter (\<lambda>a. ad_type a = p) (generate_alerts F m sc) = []"
    by (simp add: filter_generate_alerts candidate_empty_iff)
next
  assume z: "\<forall>q. spec_comfort_zone q (param_value m q)"
  show "generate_alerts F m sc = []"
    using z [THEN spec, of Temperature] z [THEN spec, of Humidite] z [THEN spec, of Air]
      z [THEN spec, of Bruit] z [THEN spec, of Luminosite]
    by (simp add: generate_alerts_candidates candidate_empty_iff del: spec_comfort_zone.simps)
  show "determine_status (calculate_global_score (scores_of m)) = Comfort"
    using z [THEN spec, of Temperature] z [THEN spec, of Humidite] z [THEN spec, of Air]
      z [THEN spec, of Bruit] z [THEN spec, of Luminosite]
    by (simp add: scores_of_def global_score_100 determine_status_def
        calculate_parameter_score_def)
next
  assume a: "collect_measurement E d data = (d', Inr r)
        \<and> (\<forall>q. spec_comfort_zone q (param_value (r_mesure r) q))"
  then have z: "\<forall>q. spec_comfort_zone q (param_value (r_mesure r) q)" by simp
  from a obtain sid t h a b l ts where
    ab: "atomic_body E sid t h a b l ts d = (d', Inr r)"
    using collect_measurement_Inr [of E d data d' r] by fastforce
  have ga: "generate_alerts (e_str E) (r_mesure r) (scores_of (r_mesure r)) = []"
    using z [THEN spec, of Temperature] z [THEN spec, of Humidite] z [THEN spec, of Air]
      z [THEN spec, of Bruit] z [THEN spec, of Luminosite]
    by (simp add: generate_alerts_candidates candidate_empty_iff del: spec_comfort_zone.simps)
  with atomic_body_Inr(10) [OF ab] show ra: "r_alertes r = []" by simp
  with atomic_body_Inr(8) [OF ab] show "alertes d' = alertes d" by simp
  show "i_statut (r_indice_confort r) = Comfort"
    unfolding atomic_body_Inr(4) [OF ab]
    using z [THEN spec, of Temperature] z [THEN spec, of Humidite] z [THEN spec, of Air]
      z [THEN spec, of Bruit] z [THEN spec, of Luminosite]
    by (simp add: scores_of_def global_score_100 determine_status_def
        calculate_parameter_score_def)
qed

theorem in_zone_no_alert_witness:
  "spec_comfort_zone Temperature (param_value (ex_mesure 24 55\<lparr>m_timestamp := 1000\<rparr>) Temperature)
   \<and> (\<forall>q. spec_comfort_zone q (param_value (ex_mesure 24 55\<lparr>m_timestamp := 1000\<rparr>) q))
   \<and> generate_alerts ex_str (ex_mesure 24 55\<lparr>m_timestamp := 1000\<rparr>) ex_scores = []
   \<and> determine_status (calculate_global_score
        (scores_of (ex_mesure 24 55\<lparr>m_timestamp := 1000\<rparr>))) = Comfort
   \<and> r_mesure (projr (snd (collect_measurement (ex_env (\<lambda>w. True)) ex_db (ex_request None 24))))
       = ex_mesure 24 55\<lparr>m_timestamp := 1000\<rparr>
   \<and> r_alertes (projr (snd (collect_measurement (ex_env (\<lambda>w. True)) ex_db
        (ex_request None 24)))) = []
   \<and> alertes (fst (collect_measurement (ex_env (\<lambda>w. True)) ex_db (ex_request None 24)))
       = alertes ex_db
   \<and> i_statut (r_indice_confort (projr (snd (collect_measurement (ex_env (\<lambda>w. True)) ex_db
        (ex_request None 24))))) = Comfort"
  using in_zone_no_alert [where p = Temperature and m = "ex_mesure 24 55\<lparr>m_timestamp := 1000\<rparr>"
      and F = ex_str and sc = ex_scores and E = "ex_env (\<lambda>w. True)" and d = ex_db
      and data = "ex_request None 24"
      and d' = "fst (collect_measurement (ex_env (\<lambda>w. True)) ex_db (ex_request None 24))"
      and r = "projr (snd (collect_measurement (ex_env (\<lambda>w. True)) ex_db (ex_request None 24)))"]
    ex_mesure_in_zone [of 1000]
  by (simp add: ex_collect_24 ex_mesure_def)

text \<open>
  Claim C6, as amended.  The room reference is the value of the key, and room 1 when the
  key is absent.  When it is null, zero or not the identifier of a room of the store,
  ingestion returns an error and the store is unchanged.  When the request has no
  timestamp and ingestion succeeds, the timestamp of the measurement and of its index
  is the time of the clock.
\<close>

theorem collect_measurement_room_check:
  "((\<forall>sid. room_reference data = Some sid \<longrightarrow> sid = 0 \<or> sid \<notin> sa_id ` set (salles d))
      \<longrightarrow> (\<exists>e. collect_measurement E d data = (d, Inl e)))
   \<and> (rq_timestamp data = None \<and> collect_measurement E d data = (d', Inr r)
      \<longrightarrow> m_timestamp (r_mesure r) = e_clock E 0
          \<and> i_timestamp (r_indice_confort r) = e_clock E 0)"
proof (intro conjI impI)
  assume h: "\<forall>sid. room_reference data = Some sid \<longrightarrow> sid = 0 \<or> sid \<notin> sa_id ` set (salles d)"
  show "\<exists>e. collect_measurement E d data = (d, Inl e)"
  proof (cases "room_reference data")
    case None
    then show ?thesis
      by (simp add: collect_measurement_def room_reference_def)
  next
    case (Some sid)
    show ?thesis
    proof (cases "sid = 0")
      case True
      with Some show ?thesis
        by (simp add: collect_measurement_def room_reference_def)
    next
      case False
      with h Some have "sid \<notin> sa_id ` set (salles d)" by simp
      then have "find (\<lambda>s. sa_id s = sid) (salles d) = None"
        by (auto simp: find_None_iff)
      with Some False show ?thesis
        by (simp add: collect_measurement_def room_reference_def)
    qed
  qed
next
  assume a: "rq_timestamp data = None \<and> collect_measurement E d data = (d', Inr r)"
  then obtain sid t h a b l where
    "atomic_body E sid t h a b l (e_clock E 0) d = (d', Inr r)"
    using collect_measurement_Inr [of E d data d' r] by fastforce
  from atomic_body_Inr(1,3) [OF this]
  show "m_timestamp (r_mesure r) = e_clock E 0" "i_timestamp (r_indice_confort r) = e_clock E 0"
    by simp_all
qed

theorem collect_measurement_room_check_witness:
  "room_reference (ex_request (Some (Some 7)) 30) = Some 7
   \<and> 7 \<notin> sa_id ` set (salles ex_db)
   \<and> collect_measurement (ex_env (\<lambda>w. True)) ex_db (ex_request (Some (Some 7)) 30)
       = (ex_db, Inl Http404)
   \<and> rq_timestamp (ex_request None 30) = None
   \<and> m_timestamp (r_mesure (projr (snd (collect_measurement (ex_env (\<lambda>w. True)) ex_db
        (ex_request None 30))))) = e_clock (ex_env (\<lambda>w. True)) 0"
  using collect_measurement_room_check [where data = "ex_request (Some (Some 7)) 30"
      and d = ex_db and E = "ex_env (\<lambda>w. True)"]
    collect_measurement_room_check [where data = "ex_request None 30"
      and d = ex_db and E = "ex_env (\<lambda>w. True)"
      and d' = "fst (collect_measurement (ex_env (\<lambda>w. True)) ex_db (ex_request None 30))"
      and r = "projr (snd (collect_measurement (ex_env (\<lambda>w. True)) ex_db (ex_request None 30)))"]
  by (simp add: ex_collect_30 ex_collect_unknown)
     (simp add: ex_request_def ex_db_def ex_env_def room_reference_def)

text \<open>
  The claim as stated fails: a request without room reference is ingested when room 1
  exists.
\<close>

theorem collect_measurement_missing_room_counterexample:
  "rq_salle_id (ex_request None 30) = None
   \<and> \<not> isl (snd (collect_measurement (ex_env (\<lambda>w. True)) ex_db (ex_request None 30)))
   \<and> mesures ex_db = []
   \<and> map m_salle (mesures (fst (collect_measurement (ex_env (\<lambda>w. True)) ex_db
        (ex_request None 30)))) = [1]"
  by (simp add: ex_collect_30) (simp add: ex_request_def ex_db_def ex_mesure_def)

text \<open>
  Claim C7.  A call of \<open>collect_measurement\<close> that returns an error leaves the store
  as it was; a call that succeeds adds the measurement, its index and its alerts
  together.  In every store reachable by ingestion each measurement has its index.
\<close>

theorem collect_measurement_atomic:
  "(collect_measurement E d data = (d', res) \<longrightarrow>
      (case res of
         Inl e \<Rightarrow> d' = d
       | Inr r \<Rightarrow>
           salles d' = salles d \<and> mesures d' = mesures d @ [r_mesure r] \<and>
           indices d' = indices d @ [r_indice_confort r] \<and>
           i_mesure (r_indice_confort r) = m_id (r_mesure r) \<and>
           alertes d' = alertes d @ r_alertes r \<and>
           (\<forall>al \<in> set (r_alertes r). al_mesure al = m_id (r_mesure r)) \<and>
           map al_type (r_alertes r) =
             map ad_type (generate_alerts (e_str E) (r_mesure r) (scores_of (r_mesure r)))))
   \<and> (reachable d \<longrightarrow> (\<forall>m \<in> set (mesures d). \<exists>i \<in> set (indices d). i_mesure i = m_id m))"
  using collect_measurement_result reachable_invariant by blast

theorem collect_measurement_atomic_witness:
  "collect_measurement (ex_env (\<lambda>w. w \<noteq> WIndice)) ex_db (ex_request None 30)
     = (ex_db, Inl DatabaseError)
   \<and> reachable (fst (collect_measurement (ex_env (\<lambda>w. True)) ex_db (ex_request None 30)))
   \<and> map m_id (mesures (fst (collect_measurement (ex_env (\<lambda>w. True)) ex_db
        (ex_request None 30)))) = [1]
   \<and> map i_mesure (indices (fst (collect_measurement (ex_env (\<lambda>w. True)) ex_db
        (ex_request None 30)))) = [1]"
proof -
  have r: "reachable (fst (collect_measurement (ex_env (\<lambda>w. True)) ex_db (ex_request None 30)))"
    by (rule reachable_collect, rule reachable_init) (simp add: ex_db_def)
  show ?thesis
    using r collect_measurement_atomic [where E = "ex_env (\<lambda>w. w \<noteq> WIndice)" and d = ex_db
        and data = "ex_request None 30" and d' = ex_db and res = "Inl DatabaseError"]
      collect_measurement_atomic [where
        d = "fst (collect_measurement (ex_env (\<lambda>w. True)) ex_db (ex_request None 30))"]
    by (simp add: ex_collect_30 ex_collect_fail_indice)
qed

subsection \<open>Evolution\<close>

lemma Min_agg_Some: "xs \<noteq> [] \<Longrightarrow> Min_agg xs = Some (Min (set xs))"
  by (cases xs) (simp_all add: Min.set_eq_fold del: set_simps)


lemma Min_agg_None: "Min_agg xs = None \<longleftrightarrow> xs = []"
  by (cases xs) simp_all

lemma trunc_interval:
  fixes t p w :: int
  assumes "0 < w" "p mod w = 0"
  shows "t - t mod w = p \<longleftrightarrow> p \<le> t \<and> t < p + w"
proof
  assume "t - t mod w = p"
  moreover from assms(1) have "0 \<le> t mod w" "t mod w < w" by simp_all
  ultimately show "p \<le> t \<and> t < p + w" by linarith
next
  assume a: "p \<le> t \<and> t < p + w"
  then have "(t - p) mod w = t - p" by (intro mod_pos_pos_trivial) simp_all
  moreover have "(t - p) mod w = t mod w"
    using assms(2) by (metis diff_zero mod_diff_right_eq)
  ultimately show "t - t mod w = p" by simp
qed

lemma trunc_aligned: "(t - t mod w) mod w = (0::int)"
  by (simp add: mod_diff_right_eq)

lemma trunc_func_delta_props:
  "0 < snd (trunc_func_delta period)"
  "fst (trunc_func_delta period) t = t - t mod snd (trunc_func_delta period)"
  by (auto simp: trunc_func_delta_def TruncHour_def TruncDay_def hour_delta_def day_delta_def)

lemma queryset_history:
  assumes "Min_agg (map i_timestamp (filter (of_salle d sid) (indices d))) = Some earliest"
  shows "filter (\<lambda>i. of_salle d sid i \<and> i_timestamp i \<ge> earliest \<and> i_timestamp i \<le> now) (indices d)
         = filter (\<lambda>i. i_timestamp i \<le> now) (history d sid)"
proof -
  from assms have ne: "map i_timestamp (filter (of_salle d sid) (indices d)) \<noteq> []"
    by (auto simp: Min_agg_None [symmetric] simp del: Min_agg.simps)
  with assms have "earliest = Min (set (map i_timestamp (filter (of_salle d sid) (indices d))))"
    by (simp add: Min_agg_Some)
  then have "\<And>i. i \<in> set (indices d) \<Longrightarrow> of_salle d sid i \<Longrightarrow> earliest \<le> i_timestamp i"
    by simp
  then show ?thesis
    unfolding history_def filter_filter by (intro filter_cong) auto
qed

lemma get_comfort_evolution_eq:
  assumes "sid \<noteq> 0"
  shows "get_comfort_evolution now d (Some sid) period =
     Inr (group_by_period d sid (fst (trunc_func_delta period)) (snd (trunc_func_delta period))
            (filter (\<lambda>i. i_timestamp i \<le> now) (history d sid)))"
proof (cases "Min_agg (map i_timestamp (filter (of_salle d sid) (indices d)))")
  case None
  then have "history d sid = []"
    by (simp add: Min_agg_None history_def)
  with None assms show ?thesis
    by (simp add: get_comfort_evolution_def group_by_period_def)
next
  case (Some earliest)
  from queryset_history [OF Some] Some assms show ?thesis
    by (simp add: get_comfort_evolution_def Let_def split_beta)
qed

lemma get_comfort_evolution_Inr:
  assumes "get_comfort_evolution now d (Some sid) period = Inr bs"
  shows "bs = group_by_period d sid (fst (trunc_func_delta period)) (snd (trunc_func_delta period))
            (filter (\<lambda>i. i_timestamp i \<le> now) (history d sid))"
proof -
  from assms have "sid \<noteq> 0"
    by (auto simp: get_comfort_evolution_def)
  from get_comfort_evolution_eq [OF this, of now d period] assms show ?thesis by simp
qed

lemma group_by_period_periods:
  "map b_period (group_by_period d sid tr delta qs) =
     sort (remdups (map (\<lambda>i. tr (i_timestamp i)) qs))"
  by (simp add: group_by_period_def Let_def comp_def)





lemma aggregates_singleton:
  "Min_agg (map col [r]) = Some (col r)" "Max_agg (map col [r]) = Some (col r)"
  "Avg_agg (map col [r]) = Some (col r)"
  by (simp_all add: Avg_agg_def)



lemma aligned_apart:
  fixes p p' w :: int
  assumes "0 < w" "p mod w = 0" "p' mod w = 0" "p < p'"
  shows "p + w \<le> p'"
proof (rule ccontr)
  assume "\<not> p + w \<le> p'"
  with assms(4) have "p \<le> p' \<and> p' < p + w" by simp
  then have "p' - p' mod w = p" by (simp add: trunc_interval [OF assms(1,2)])
  with assms(3,4) show False by simp
qed

lemma evolution_periods:
  assumes ev: "get_comfort_evolution now d (Some sid) period = Inr bs"
  shows "map b_period bs =
           sort (remdups (map (period_of period)
             (filter (\<lambda>i. i_timestamp i \<le> now) (history d sid))))"
  unfolding get_comfort_evolution_Inr [OF ev] group_by_period_periods period_of_def ..

lemma period_of_interval:
  assumes "p mod snd (trunc_func_delta period) = 0"
  shows "period_of period i = p \<longleftrightarrow>
           p \<le> i_timestamp i \<and> i_timestamp i < p + snd (trunc_func_delta period)"
  unfolding period_of_def trunc_func_delta_props(2)
  by (rule trunc_interval [OF trunc_func_delta_props(1) assms])

lemma period_of_aligned: "period_of period i mod snd (trunc_func_delta period) = 0"
  unfolding period_of_def trunc_func_delta_props(2) by (rule trunc_aligned)

text \<open>
  Claim C9, as amended.  The periods of the result are strictly increasing, each is a
  multiple of the width and the truncated timestamp of an index of the room not later
  than \<open>now\<close>; two periods are at least one width apart; an index falls in a period
  exactly when its timestamp lies in the interval of one width starting there; and every
  index of the room not later than \<open>now\<close> lies in the interval of exactly one row.
  The truncation is to the hour for the token hour and to the day otherwise.
\<close>

theorem get_comfort_evolution_buckets:
  "(get_comfort_evolution now d (Some sid) period = Inr bs \<longrightarrow>
     (let delta = snd (trunc_func_delta period) in
        sorted_wrt (<) (map b_period bs)
        \<and> (\<forall>b \<in> set bs. b_period b mod delta = 0
             \<and> (\<exists>i \<in> set (history d sid). i_timestamp i \<le> now
                    \<and> b_period b = period_of period i))
        \<and> (\<forall>b \<in> set bs. \<forall>b' \<in> set bs.
              b_period b < b_period b' \<longrightarrow> b_period b + delta \<le> b_period b')
        \<and> (\<forall>b \<in> set bs. \<forall>i.
              period_of period i = b_period b \<longleftrightarrow>
                b_period b \<le> i_timestamp i \<and> i_timestamp i < b_period b + delta)
        \<and> (\<forall>i \<in> set (history d sid). i_timestamp i \<le> now \<longrightarrow>
              (\<exists>!b. b \<in> set bs \<and> b_period b \<le> i_timestamp i
                     \<and> i_timestamp i < b_period b + delta))))
   \<and> period_of ''hour'' i = i_timestamp i - i_timestamp i mod 3600000000
   \<and> (period \<noteq> ''hour'' \<longrightarrow> period_of period i = i_timestamp i - i_timestamp i mod 86400000000)"
proof (intro conjI impI)
  assume ev: "get_comfort_evolution now d (Some sid) period = Inr bs"
  define delta where "delta = snd (trunc_func_delta period)"
  let ?qs = "filter (\<lambda>i. i_timestamp i \<le> now) (history d sid)"
  note ps = evolution_periods [OF ev]
  have pos: "0 < delta" unfolding delta_def by (rule trunc_func_delta_props(1))
  have sorted: "sorted_wrt (<) (map b_period bs)"
    unfolding ps strict_sorted_iff by simp
  have key: "\<exists>i \<in> set ?qs. b_period b = period_of period i" if "b \<in> set bs" for b
  proof -
    from that have "b_period b \<in> set (map b_period bs)" by simp
    then show ?thesis unfolding ps by auto
  qed
  have aligned: "b_period b mod delta = 0" if "b \<in> set bs" for b
    using key [OF that] period_of_aligned [of period] by (auto simp: delta_def)
  have nonempty: "\<forall>b \<in> set bs. b_period b mod delta = 0
             \<and> (\<exists>i \<in> set (history d sid). i_timestamp i \<le> now
                    \<and> b_period b = period_of period i)"
    using key aligned by fastforce
  have apart: "\<forall>b \<in> set bs. \<forall>b' \<in> set bs.
              b_period b < b_period b' \<longrightarrow> b_period b + delta \<le> b_period b'"
    using aligned_apart [OF pos] aligned by blast
  have interval: "\<forall>b \<in> set bs. \<forall>i.
              period_of period i = b_period b \<longleftrightarrow>
                b_period b \<le> i_timestamp i \<and> i_timestamp i < b_period b + delta"
    using period_of_interval [of _ period] aligned unfolding delta_def by blast
  have inj: "inj_on b_period (set bs)"
    using sorted by (simp add: strict_sorted_iff distinct_map)
  have unique: "\<forall>i \<in> set (history d sid). i_timestamp i \<le> now \<longrightarrow>
              (\<exists>!b. b \<in> set bs \<and> b_period b \<le> i_timestamp i
                     \<and> i_timestamp i < b_period b + delta)"
  proof (intro ballI impI)
    fix i assume i: "i \<in> set (history d sid)" "i_timestamp i \<le> now"
    then have "period_of period i \<in> set (map b_period bs)"
      unfolding ps by simp
    then obtain b where b: "b \<in> set bs" "b_period b = period_of period i" by auto
    show "\<exists>!b. b \<in> set bs \<and> b_period b \<le> i_timestamp i \<and> i_timestamp i < b_period b + delta"
    proof (rule ex1I [of _ b])
      from b interval show "b \<in> set bs \<and> b_period b \<le> i_timestamp i
          \<and> i_timestamp i < b_period b + delta"
        by metis
    next
      fix b' assume "b' \<in> set bs \<and> b_period b' \<le> i_timestamp i
          \<and> i_timestamp i < b_period b' + delta"
      with interval have "b' \<in> set bs" "b_period b' = period_of period i" by metis+
      with b show "b' = b" using inj_onD [OF inj, of b' b] by simp
    qed
  qed
  from sorted nonempty apart interval unique
  show "let delta = snd (trunc_func_delta period) in
        sorted_wrt (<) (map b_period bs)
        \<and> (\<forall>b \<in> set bs. b_period b mod delta = 0
             \<and> (\<exists>i \<in> set (history d sid). i_timestamp i \<le> now
                    \<and> b_period b = period_of period i))
        \<and> (\<forall>b \<in> set bs. \<forall>b' \<in> set bs.
              b_period b < b_period b' \<longrightarrow> b_period b + delta \<le> b_period b')
        \<and> (\<forall>b \<in> set bs. \<forall>i.
              period_of period i = b_period b \<longleftrightarrow>
                b_period b \<le> i_timestamp i \<and> i_timestamp i < b_period b + delta)
        \<and> (\<forall>i \<in> set (history d sid). i_timestamp i \<le> now \<longrightarrow>
              (\<exists>!b. b \<in> set bs \<and> b_period b \<le> i_timestamp i
                     \<and> i_timestamp i < b_period b + delta))"
    unfolding Let_def delta_def [symmetric] by blast
next
  show "period_of ''hour'' i = i_timestamp i - i_timestamp i mod 3600000000"
    by (simp add: period_of_def trunc_func_delta_def TruncHour_def hour_delta_def)
next
  assume "period \<noteq> ''hour''"
  then show "period_of period i = i_timestamp i - i_timestamp i mod 86400000000"
    by (simp add: period_of_def trunc_func_delta_def TruncDay_def day_delta_def)
qed

text \<open>The store of the examples is the one two calls of the ingestion leave.\<close>

lemma ex_history_db_ingested:
  "fst (collect_measurement (ex_env (\<lambda>w. True))
          (fst (collect_measurement (ex_env (\<lambda>w. True)) ex_db
                  ((ex_request None 30)\<lparr>rq_timestamp := Some 100\<rparr>)))
          ((ex_request None 24)\<lparr>rq_timestamp := Some 7200000100\<rparr>))
   = ex_history_db"
  by (simp add: ex_simps ex_history_db_def ex_indice_def ex_mesure_def)

lemmas ex_evolution_simps = get_comfort_evolution_def group_by_period_def annotate_col_def
  current_sub_def order_by_desc_timestamp_def of_salle_def trunc_func_delta_def TruncHour_def
  TruncDay_def hour_delta_def day_delta_def Avg_agg_def ex_history_db_def ex_indice_def
  ex_mesure_def ex_bucket_def ex_agg_def Let_def

lemma ex_history: "history ex_history_db 1 = [ex_indice 1 60 100, ex_indice 2 100 7200000100]"
  by (simp add: history_def of_salle_def ex_history_db_def ex_indice_def ex_mesure_def)

lemma ex_evolution_hour:
  "get_comfort_evolution 9000000000 ex_history_db (Some 1) ''hour'' =
     Inr [ex_bucket 0 60 60, ex_bucket 7200000000 100 100]"
  by (simp add: ex_evolution_simps)

lemma ex_evolution_hour_early:
  "get_comfort_evolution 2000 ex_history_db (Some 1) ''hour'' = Inr [ex_bucket 0 60 60]"
  by (simp add: ex_evolution_simps)


lemma ex_evolution_empty:
  "get_comfort_evolution 2000 ex_db (Some 1) ''day'' = Inr []"
  by (simp add: get_comfort_evolution_def ex_db_def)

lemma ex_periods:
  "map (period_of ''day'') (history ex_history_db 1) = [0, 0]"
  "map (period_of ''hour'') (history ex_history_db 1) = [0, 7200000000]"
  by (simp_all add: ex_history period_of_def trunc_func_delta_def TruncDay_def TruncHour_def
      day_delta_def hour_delta_def ex_indice_def)




text \<open>
  The claim as stated fails: an index later than \<open>now\<close> lies in the interval of no
  row of the result.
\<close>

theorem get_comfort_evolution_buckets_counterexample:
  "get_comfort_evolution 2000 ex_history_db (Some 1) ''hour'' = Inr [ex_bucket 0 60 60]
   \<and> history ex_history_db 1 = [ex_indice 1 60 100, ex_indice 2 100 7200000100]
   \<and> map (period_of ''hour'') (history ex_history_db 1) = [0, 7200000000]
   \<and> map b_period [ex_bucket 0 60 60] = [0]
   \<and> i_timestamp (ex_indice 2 100 7200000100) = 7200000100
   \<and> \<not> (b_period (ex_bucket 0 60 60) \<le> i_timestamp (ex_indice 2 100 7200000100)
         \<and> i_timestamp (ex_indice 2 100 7200000100) < b_period (ex_bucket 0 60 60) + 3600000000)"
  by (simp add: ex_evolution_hour_early ex_periods)
     (simp add: ex_history ex_bucket_def ex_indice_def)

theorem get_comfort_evolution_buckets_witness:
  "get_comfort_evolution 9000000000 ex_history_db (Some 1) ''hour'' =
     Inr [ex_bucket 0 60 60, ex_bucket 7200000000 100 100]
   \<and> sorted_wrt (<) (map b_period [ex_bucket 0 60 60, ex_bucket 7200000000 100 100])
   \<and> map b_period [ex_bucket 0 60 60, ex_bucket 7200000000 100 100] = [0, 7200000000]
   \<and> ''day'' \<noteq> ''hour''
   \<and> period_of ''day'' (ex_indice 2 100 7200000100)
       = i_timestamp (ex_indice 2 100 7200000100)
         - i_timestamp (ex_indice 2 100 7200000100) mod 86400000000"
proof -
  have ev: "get_comfort_evolution 9000000000 ex_history_db (Some 1) ''hour'' =
     Inr [ex_bucket 0 60 60, ex_bucket 7200000000 100 100]"
    by (rule ex_evolution_hour)
  have day: "''day'' \<noteq> ''hour''" by simp
  note ordered = get_comfort_evolution_buckets [where sid = 1 and d = ex_history_db
      and now = 9000000000 and period = "''hour''"
      and bs = "[ex_bucket 0 60 60, ex_bucket 7200000000 100 100]"
      and i = "ex_indice 2 100 7200000100",
      THEN conjunct1, THEN mp, OF ev, unfolded Let_def, THEN conjunct1]
  note key = get_comfort_evolution_buckets [where sid = 1 and d = ex_history_db
      and now = 9000000000 and period = "''day''" and bs = "[]"
      and i = "ex_indice 2 100 7200000100",
      THEN conjunct2, THEN conjunct2, THEN mp, OF day]
  have periods: "map b_period [ex_bucket 0 60 60, ex_bucket 7200000000 100 100]
                   = [0, 7200000000]"
    by (simp add: ex_bucket_def)
  from ev ordered periods day key show ?thesis
    by (intro conjI)
qed

end
